theory Spec2Isabelle
  imports
    Main
    "HOL-Library.Word"
    "HOL-Library.Char_ord"
    "HOL-Library.List_Lexorder"
    "HOL-Library.Multiset"
begin

unbundle bit_operations_syntax

section \<open>The request signer of \<^verbatim>\<open>clients/requests.py\<close>\<close>

text \<open>
  The module is Python 2 (\<^verbatim>\<open>from urlparse import urlparse\<close>): a \<^verbatim>\<open>str\<close> is a
  sequence of bytes, which is what \<^typ>\<open>string\<close> (a list of 8-bit \<^typ>\<open>char\<close>) is.
  The newline of the template of the string to sign is \<^term>\<open>CHR 0x0A\<close>.
\<close>

subsection \<open>Library functions the module calls\<close>

text \<open>
  \<^verbatim>\<open>hashlib.sha256\<close>, \<^verbatim>\<open>hmac.new(...).digest()\<close>, \<^verbatim>\<open>base64.b64encode\<close>,
  \<^verbatim>\<open>str.join\<close>, \<^verbatim>\<open>str.format\<close>, \<^verbatim>\<open>sorted\<close> and \<^verbatim>\<open>datetime.isoformat\<close>
  belong to the Python standard library, not to this repository. They are modelled
  here after their published definitions (FIPS 180-4, RFC 2104, RFC 4648 and the
  library reference), so that every term of the signer evaluates.
\<close>

subsubsection \<open>SHA-256 (FIPS 180-4)\<close>

definition ch :: "32 word \<Rightarrow> 32 word \<Rightarrow> 32 word \<Rightarrow> 32 word" where
  "ch x y z = (x AND y) XOR (NOT x AND z)"

definition maj :: "32 word \<Rightarrow> 32 word \<Rightarrow> 32 word \<Rightarrow> 32 word" where
  "maj x y z = (x AND y) XOR (x AND z) XOR (y AND z)"

definition big_sigma0 :: "32 word \<Rightarrow> 32 word" where
  "big_sigma0 x = word_rotr 2 x XOR word_rotr 13 x XOR word_rotr 22 x"

definition big_sigma1 :: "32 word \<Rightarrow> 32 word" where
  "big_sigma1 x = word_rotr 6 x XOR word_rotr 11 x XOR word_rotr 25 x"

definition small_sigma0 :: "32 word \<Rightarrow> 32 word" where
  "small_sigma0 x = word_rotr 7 x XOR word_rotr 18 x XOR drop_bit 3 x"

definition small_sigma1 :: "32 word \<Rightarrow> 32 word" where
  "small_sigma1 x = word_rotr 17 x XOR word_rotr 19 x XOR drop_bit 10 x"

text \<open>The sixty-four round constants and the initial hash value, in decimal.\<close>

definition round_constants :: "32 word list" where
  "round_constants =
   [1116352408, 1899447441, 3049323471, 3921009573, 961987163, 1508970993,
    2453635748, 2870763221, 3624381080, 310598401, 607225278, 1426881987,
    1925078388, 2162078206, 2614888103, 3248222580, 3835390401, 4022224774,
    264347078, 604807628, 770255983, 1249150122, 1555081692, 1996064986,
    2554220882, 2821834349, 2952996808, 3210313671, 3336571891, 3584528711,
    113926993, 338241895, 666307205, 773529912, 1294757372, 1396182291,
    1695183700, 1986661051, 2177026350, 2456956037, 2730485921, 2820302411,
    3259730800, 3345764771, 3516065817, 3600352804, 4094571909, 275423344,
    430227734, 506948616, 659060556, 883997877, 958139571, 1322822218,
    1537002063, 1747873779, 1955562222, 2024104815, 2227730452, 2361852424,
    2428436474, 2756734187, 3204031479, 3329325298]"

definition initial_hash :: "32 word list" where
  "initial_hash =
   [1779033703, 3144134277, 1013904242, 2773480762,
    1359893119, 2600822924, 528734635, 1541459225]"

text \<open>Big-endian conversions between bytes and words.\<close>

definition be_word :: "string \<Rightarrow> 32 word" where
  "be_word bs = foldl (\<lambda>w c. push_bit 8 w + of_nat (of_char c)) 0 bs"

definition word_bytes :: "32 word \<Rightarrow> string" where
  "word_bytes w =
     [char_of (unat (drop_bit 24 w)), char_of (unat (drop_bit 16 w)),
      char_of (unat (drop_bit 8 w)), char_of (unat w)]"

fun be_bytes :: "nat \<Rightarrow> nat \<Rightarrow> string" where
  "be_bytes 0 n = []"
| "be_bytes (Suc k) n = be_bytes k (n div 256) @ [char_of n]"

definition length_bytes :: "nat \<Rightarrow> string" where
  "length_bytes n = be_bytes 8 n"

text \<open>
  Padding: a single \<open>1\<close> bit, zero bits up to 56 modulo 64 bytes, and the length of the
  message in bits as a 64-bit big-endian number.
\<close>

definition sha_pad :: "string \<Rightarrow> string" where
  "sha_pad m =
     m @ [char_of (128 :: nat)]
       @ replicate ((119 - length m mod 64) mod 64) (char_of (0 :: nat))
       @ length_bytes (8 * length m)"

fun chunks :: "nat \<Rightarrow> 'a list \<Rightarrow> 'a list list" where
  "chunks n xs =
     (if n = 0 \<or> xs = [] then [] else take n xs # chunks n (drop n xs))"

text \<open>The message schedule: sixteen words of the block, extended to sixty-four.\<close>

fun extend_schedule :: "nat \<Rightarrow> 32 word list \<Rightarrow> 32 word list" where
  "extend_schedule 0 w = w"
| "extend_schedule (Suc k) w =
     (let t = length w in
      extend_schedule k
        (w @ [small_sigma1 (w ! (t - 2)) + w ! (t - 7)
              + small_sigma0 (w ! (t - 15)) + w ! (t - 16)]))"

definition schedule :: "string \<Rightarrow> 32 word list" where
  "schedule block = extend_schedule 48 (map be_word (chunks 4 block))"

text \<open>One round on the eight working variables, and the compression of one block.\<close>

fun sha_round :: "32 word list \<Rightarrow> 32 word \<times> 32 word \<Rightarrow> 32 word list" where
  "sha_round [a, b, c, d, e, f, g, h] (k, w) =
     (let t1 = h + big_sigma1 e + ch e f g + k + w;
          t2 = big_sigma0 a + maj a b c
      in [t1 + t2, a, b, c, d + t1, e, f, g])"
| "sha_round v _ = v"

definition compress :: "32 word list \<Rightarrow> string \<Rightarrow> 32 word list" where
  "compress hs block =
     map2 (+) hs (foldl sha_round hs (zip round_constants (schedule block)))"

definition sha256 :: "string \<Rightarrow> string" where
  "sha256 m = concat (map word_bytes (foldl compress initial_hash (chunks 64 (sha_pad m))))"

subsubsection \<open>HMAC (RFC 2104, as in \<^verbatim>\<open>hmac.py\<close>)\<close>

definition translate_xor :: "nat \<Rightarrow> string \<Rightarrow> string" where
  "translate_xor p key = map (\<lambda>c. char_of (of_char c XOR p)) key"

definition hmac_sha256 :: "string \<Rightarrow> string \<Rightarrow> string" where
  "hmac_sha256 key msg =
     (let blocksize = 64;
          key1 = (if length key > blocksize then sha256 key else key);
          key2 = key1 @ replicate (blocksize - length key1) (char_of (0 :: nat));
          inner = sha256 (translate_xor 0x36 key2 @ msg)
      in sha256 (translate_xor 0x5C key2 @ inner))"

subsubsection \<open>Base64 (RFC 4648, standard alphabet, with padding)\<close>

definition b64_alphabet :: string where
  "b64_alphabet =
     ''ABCDEFGHIJKLMNOPQRSTUVWXYZabcdefghijklmnopqrstuvwxyz0123456789+/''"

definition b64_char :: "nat \<Rightarrow> char" where
  "b64_char n = b64_alphabet ! n"

fun b64encode :: "string \<Rightarrow> string" where
  "b64encode [] = []"
| "b64encode [x] =
     (let a = (of_char x :: nat) in
      [b64_char (a div 4), b64_char (a mod 4 * 16), CHR ''='', CHR ''=''])"
| "b64encode [x, y] =
     (let a = (of_char x :: nat); b = (of_char y :: nat) in
      [b64_char (a div 4), b64_char (a mod 4 * 16 + b div 16),
       b64_char (b mod 16 * 4), CHR ''=''])"
| "b64encode (x # y # z # rest) =
     (let a = (of_char x :: nat); b = (of_char y :: nat); c = (of_char z :: nat) in
      [b64_char (a div 4), b64_char (a mod 4 * 16 + b div 16),
       b64_char (b mod 16 * 4 + c div 64), b64_char (c mod 64)] @ b64encode rest)"

subsubsection \<open>\<^verbatim>\<open>str.join\<close>\<close>

fun join :: "string \<Rightarrow> string list \<Rightarrow> string" where
  "join sep [] = []"
| "join sep [x] = x"
| "join sep (x # y # ys) = x @ sep @ join sep (y # ys)"

subsubsection \<open>\<^verbatim>\<open>str.format\<close> with keyword arguments\<close>

text \<open>
  The exceptions the modelled calls can raise. \<open>NotModelled\<close> marks a replacement
  field with a conversion, a format specification or an attribute or index lookup:
  \<^verbatim>\<open>str.format\<close> gives those a meaning that this model does not cover, and neither
  template of the module has one.
\<close>

datatype error = KeyError string | IndexError | ValueError | NotModelled

datatype scan = Lit | Opened | Closed | Field string

fun emit :: "string \<Rightarrow> error + string \<Rightarrow> error + string" where
  "emit s (Inl e) = Inl e"
| "emit s (Inr t) = Inr (s @ t)"

text \<open>
  A scan of the template, left to right: literal text is copied, \<^verbatim>\<open>{{\<close> and
  \<^verbatim>\<open>}}\<close> stand for one brace, and \<^verbatim>\<open>{name}\<close> is replaced by the keyword
  argument of that name, inserted as it is. A name that is not among the arguments
  raises \<^verbatim>\<open>KeyError\<close>, the empty name (automatic numbering, with no positional
  argument) \<^verbatim>\<open>IndexError\<close>, an unbalanced brace \<^verbatim>\<open>ValueError\<close>.
\<close>

fun format_scan :: "(string \<times> string) list \<Rightarrow> scan \<Rightarrow> string \<Rightarrow> error + string" where
  "format_scan kw Lit [] = Inr []"
| "format_scan kw Opened [] = Inl ValueError"
| "format_scan kw Closed [] = Inl ValueError"
| "format_scan kw (Field name) [] = Inl ValueError"
| "format_scan kw Lit (c # cs) =
     (if c = CHR ''{'' then format_scan kw Opened cs
      else if c = CHR ''}'' then format_scan kw Closed cs
      else emit [c] (format_scan kw Lit cs))"
| "format_scan kw Opened (c # cs) =
     (if c = CHR ''{'' then emit [c] (format_scan kw Lit cs)
      else if c = CHR ''}'' then Inl IndexError
      else if c \<in> set ''!:.[]'' then Inl NotModelled
      else format_scan kw (Field [c]) cs)"
| "format_scan kw Closed (c # cs) =
     (if c = CHR ''}'' then emit [c] (format_scan kw Lit cs) else Inl ValueError)"
| "format_scan kw (Field name) (c # cs) =
     (if c = CHR ''}'' then
        (case map_of kw name of
           None \<Rightarrow> Inl (KeyError name)
         | Some v \<Rightarrow> emit v (format_scan kw Lit cs))
      else if c = CHR ''{'' then Inl ValueError
      else if c \<in> set ''!:.[]'' then Inl NotModelled
      else format_scan kw (Field (name @ [c])) cs)"

definition format_str :: "string \<Rightarrow> (string \<times> string) list \<Rightarrow> error + string" where
  "format_str template kw = format_scan kw Lit template"

subsubsection \<open>\<^verbatim>\<open>datetime.isoformat\<close>\<close>

text \<open>
  A reading of the clock, as \<^verbatim>\<open>datetime.utcnow()\<close> returns it: a \<^verbatim>\<open>datetime\<close>
  without time zone. The clock is an input of the model.
\<close>

record datetime =
  year :: nat
  month :: nat
  day :: nat
  hour :: nat
  minute :: nat
  second :: nat
  microsecond :: nat

text \<open>
  \<^verbatim>\<open>"%02d"\<close>, \<^verbatim>\<open>"%04d"\<close> and \<^verbatim>\<open>"%06d"\<close> on a number of at most that many
  digits, which the fields of a \<^verbatim>\<open>datetime\<close> are (the year is at most 9999, the
  microsecond below 1000000).
\<close>

definition digit :: "nat \<Rightarrow> char" where
  "digit n = ''0123456789'' ! (n mod 10)"

definition digits2 :: "nat \<Rightarrow> string" where
  "digits2 n = [digit (n div 10), digit n]"

definition digits4 :: "nat \<Rightarrow> string" where
  "digits4 n = digits2 (n div 100) @ digits2 n"

definition digits6 :: "nat \<Rightarrow> string" where
  "digits6 n = digits2 (n div 10000) @ digits4 n"

text \<open>
  \<^verbatim>\<open>isoformat()\<close> on a \<^verbatim>\<open>datetime\<close> without time zone gives
  \<^verbatim>\<open>YYYY-MM-DDTHH:MM:SS.ffffff\<close>, and \<^verbatim>\<open>YYYY-MM-DDTHH:MM:SS\<close> when the
  microsecond is 0.
\<close>

definition isoformat_seconds :: "datetime \<Rightarrow> string" where
  "isoformat_seconds dt =
     digits4 (year dt) @ ''-'' @ digits2 (month dt) @ ''-'' @ digits2 (day dt)
     @ ''T'' @ digits2 (hour dt) @ '':'' @ digits2 (minute dt) @ '':''
     @ digits2 (second dt)"

definition isoformat :: "datetime \<Rightarrow> string" where
  "isoformat dt =
     isoformat_seconds dt
     @ (if microsecond dt \<noteq> 0 then ''.'' @ digits6 (microsecond dt) else [])"

subsection \<open>The objects the signer works on\<close>

text \<open>
  The result of \<^verbatim>\<open>urlparse\<close>, and the request: the attributes of
  \<^verbatim>\<open>requests.PreparedRequest\<close> that \<^verbatim>\<open>__call__\<close> reads or writes, and its body.
  The field \<open>method'\<close> is \<^verbatim>\<open>r.method\<close>. \<^verbatim>\<open>urlparse\<close> itself is a parameter of
  the model.

  \<^verbatim>\<open>r.headers\<close> is a \<^verbatim>\<open>CaseInsensitiveDict\<close> of the \<^verbatim>\<open>requests\<close> library
  (\<^verbatim>\<open>requests/structures.py\<close>): its store maps the lower-cased name to the name as it
  was last written and the value,
  \<^verbatim>\<open>
  def __setitem__(self, key, value):
      self._store[key.lower()] = (key, value)
  def __getitem__(self, key):
      return self._store[key.lower()][1]
  \<close>
  and \<^verbatim>\<open>key in d\<close> and \<^verbatim>\<open>d.get(key)\<close> are those of \<^verbatim>\<open>Mapping\<close>, through
  \<^verbatim>\<open>__getitem__\<close>. \<^verbatim>\<open>str.lower\<close> changes the letters \<^verbatim>\<open>A\<close> to \<^verbatim>\<open>Z\<close>.
\<close>

definition lower_char :: "char \<Rightarrow> char" where
  "lower_char c =
     (case map_of (zip ''ABCDEFGHIJKLMNOPQRSTUVWXYZ'' ''abcdefghijklmnopqrstuvwxyz'') c of
        None \<Rightarrow> c
      | Some l \<Rightarrow> l)"

definition lower :: "string \<Rightarrow> string" where
  "lower s = map lower_char s"

type_synonym CaseInsensitiveDict = "string \<rightharpoonup> string \<times> string"

definition cid_setitem :: "CaseInsensitiveDict \<Rightarrow> string \<Rightarrow> string \<Rightarrow> CaseInsensitiveDict" where
  "cid_setitem d key v = d(lower key \<mapsto> (key, v))"

definition cid_getitem :: "CaseInsensitiveDict \<Rightarrow> string \<Rightarrow> error + string" where
  "cid_getitem d key =
     (case d (lower key) of None \<Rightarrow> Inl (KeyError (lower key)) | Some kv \<Rightarrow> Inr (snd kv))"

definition cid_contains :: "CaseInsensitiveDict \<Rightarrow> string \<Rightarrow> bool" where
  "cid_contains d key = (case cid_getitem d key of Inl e \<Rightarrow> False | Inr v \<Rightarrow> True)"

definition cid_get :: "CaseInsensitiveDict \<Rightarrow> string \<Rightarrow> string option" where
  "cid_get d key = (case cid_getitem d key of Inl e \<Rightarrow> None | Inr v \<Rightarrow> Some v)"

record parse_result =
  scheme :: string
  netloc :: string
  path :: string
  params :: string
  query :: string
  fragment :: string

record request =
  method' :: string
  url :: string
  path_url :: string
  headers :: CaseInsensitiveDict
  body :: string

record HMACAuth =
  api_key :: string
  secret_key :: string
  required_headers :: "string list option"

subsection \<open>The module\<close>

definition STRING_TO_SIGN :: string where
  "STRING_TO_SIGN = ''{method}\<newline>{host}\<newline>{uri}\<newline>{timestamp}\<newline>''"

definition AUTH_HEADER :: string where
  "AUTH_HEADER = ''APIKey={api_key},Signature={sig},Timestamp={timestamp}''"

text \<open>\<^verbatim>\<open>HMACAuth.__init__\<close>: the header names are stored sorted, \<^verbatim>\<open>None\<close> stays.\<close>

definition HMACAuth_init :: "string \<Rightarrow> string \<Rightarrow> string list option \<Rightarrow> HMACAuth" where
  "HMACAuth_init api_key' secret_key' required_headers' =
     \<lparr>api_key = api_key',
      secret_key = secret_key',
      required_headers =
        (case required_headers' of
           Some hs \<Rightarrow> Some (sort hs)
         | None \<Rightarrow> None)\<rparr>"

text \<open>
  The list comprehension
  \<^verbatim>\<open>[r.headers[h] for h in self.required_headers if h in r.headers]\<close>,
  on the lookup \<open>hdrs\<close> that the headers give: \<^verbatim>\<open>h in r.headers\<close> asks whether the
  lookup has a value for \<open>h\<close>, and the subscription \<^verbatim>\<open>r.headers[h]\<close> returns that
  value and raises \<^verbatim>\<open>KeyError\<close> when there is none. For the headers of a request
  the lookup is \<^term>\<open>cid_get\<close> of them.
\<close>

definition getitem :: "(string \<rightharpoonup> string) \<Rightarrow> string \<Rightarrow> error + string" where
  "getitem hdrs h = (case hdrs h of None \<Rightarrow> Inl (KeyError h) | Some v \<Rightarrow> Inr v)"

definition contains :: "(string \<rightharpoonup> string) \<Rightarrow> string \<Rightarrow> bool" where
  "contains hdrs h = (hdrs h \<noteq> None)"

fun header_values :: "(string \<rightharpoonup> string) \<Rightarrow> string list \<Rightarrow> error + string list" where
  "header_values hdrs [] = Inr []"
| "header_values hdrs (h # hs) =
     (if contains hdrs h then
        (case getitem hdrs h of
           Inl e \<Rightarrow> Inl e
         | Inr v \<Rightarrow>
             (case header_values hdrs hs of
                Inl e \<Rightarrow> Inl e
              | Inr vs \<Rightarrow> Inr (v # vs)))
      else header_values hdrs hs)"

text \<open>
  Lines 33 to 44 of \<^verbatim>\<open>__call__\<close>: the string to sign, from the method, the host,
  the path with its query, the timestamp and the headers of the request. The test
  \<^verbatim>\<open>if self.required_headers:\<close> is false for \<^verbatim>\<open>None\<close> and for the empty list.
\<close>

definition build_str_to_sign ::
  "HMACAuth \<Rightarrow> string \<Rightarrow> string \<Rightarrow> string \<Rightarrow> string \<Rightarrow> (string \<rightharpoonup> string) \<Rightarrow> error + string" where
  "build_str_to_sign self meth host uri timestamp hdrs =
     (case format_str STRING_TO_SIGN
             [(''method'', meth), (''host'', host), (''uri'', uri),
              (''timestamp'', timestamp)] of
        Inl e \<Rightarrow> Inl e
      | Inr str_to_sign \<Rightarrow>
          (case required_headers self of
             Some (h # hs) \<Rightarrow>
               (case header_values hdrs (h # hs) of
                  Inl e \<Rightarrow> Inl e
                | Inr vs \<Rightarrow> Inr (str_to_sign @ join ''\<newline>'' vs))
           | _ \<Rightarrow> Inr str_to_sign))"

text \<open>Lines 46 and 47: the signature, encoded.\<close>

definition encoded_sig :: "HMACAuth \<Rightarrow> string \<Rightarrow> string" where
  "encoded_sig self str_to_sign = b64encode (hmac_sha256 (secret_key self) str_to_sign)"

text \<open>Line 31: the timestamp, from the reading of the clock.\<close>

definition make_timestamp :: "datetime \<Rightarrow> string" where
  "make_timestamp now = isoformat now @ ''-00:00''"

text \<open>
  \<^verbatim>\<open>HMACAuth.__call__\<close>, with the reading of the clock and \<^verbatim>\<open>urlparse\<close> as
  arguments. The request is returned with its \<^verbatim>\<open>Authorization\<close> header set, by
  \<^verbatim>\<open>__setitem__\<close> of its headers.
\<close>

definition HMACAuth_call ::
  "(string \<Rightarrow> parse_result) \<Rightarrow> datetime \<Rightarrow> HMACAuth \<Rightarrow> request \<Rightarrow> error + request" where
  "HMACAuth_call urlparse now self r =
     (let parsed_url = urlparse (url r);
          timestamp = make_timestamp now
      in case build_str_to_sign self (method' r) (netloc parsed_url) (path_url r)
                timestamp (cid_get (headers r)) of
           Inl e \<Rightarrow> Inl e
         | Inr str_to_sign \<Rightarrow>
             (case format_str AUTH_HEADER
                     [(''api_key'', api_key self),
                      (''sig'', encoded_sig self str_to_sign),
                      (''timestamp'', timestamp)] of
                Inl e \<Rightarrow> Inl e
              | Inr v \<Rightarrow> Inr (r\<lparr>headers := cid_setitem (headers r) ''Authorization'' v\<rparr>)))"

subsection \<open>What the theorems observe\<close>

text \<open>
  The values the comprehension selects, as a list: those of the allow-listed names
  that the request has, in the order of the stored allow-list.
\<close>

definition selected_header_values :: "HMACAuth \<Rightarrow> (string \<rightharpoonup> string) \<Rightarrow> string list" where
  "selected_header_values self hdrs =
     (case required_headers self of
        Some (h # hs) \<Rightarrow> List.map_filter hdrs (h # hs)
      | _ \<Rightarrow> [])"

text \<open>
  The \<^verbatim>\<open>Authorization\<close> header of the request a call returns:
  \<^verbatim>\<open>r.headers.get('Authorization')\<close>.
\<close>

definition authorization_of :: "error + request \<Rightarrow> string option" where
  "authorization_of res =
     (case res of Inl e \<Rightarrow> None | Inr r \<Rightarrow> cid_get (headers r) ''Authorization'')"

definition has_newline :: "string \<Rightarrow> bool" where
  "has_newline s = (CHR 0x0A \<in> set s)"

text \<open>
  The timestamp as the specification words it: always with the six digits of the
  microsecond, then the suffix.
\<close>

definition spec_timestamp :: "datetime \<Rightarrow> string" where
  "spec_timestamp dt =
     isoformat_seconds dt @ ''.'' @ digits6 (microsecond dt) @ ''-00:00''"

subsection \<open>Concrete inputs\<close>

text \<open>
  Two readings of the clock (the first on a full second), a request for
  \<^verbatim>\<open>http://example.com/v1/things?x=1\<close> with two headers and a stale
  \<^verbatim>\<open>authorization\<close> written in small letters, and a function that returns on that URL what \<^verbatim>\<open>urlparse\<close>
  returns on it.
\<close>

definition example_now :: datetime where
  "example_now =
     \<lparr>year = 2024, month = 1, day = 1, hour = 0, minute = 0, second = 0, microsecond = 0\<rparr>"

definition example_later :: datetime where
  "example_later =
     \<lparr>year = 2024, month = 11, day = 30, hour = 23, minute = 59, second = 7,
      microsecond = 1234\<rparr>"

definition example_urlparse :: "string \<Rightarrow> parse_result" where
  "example_urlparse u =
     (if u = ''http://example.com/v1/things?x=1'' then
        \<lparr>scheme = ''http'', netloc = ''example.com'', path = ''/v1/things'', params = [],
         query = ''x=1'', fragment = []\<rparr>
      else
        \<lparr>scheme = [], netloc = [], path = u, params = [], query = [], fragment = []\<rparr>)"

definition example_request :: request where
  "example_request =
     \<lparr>method' = ''GET'', url = ''http://example.com/v1/things?x=1'',
      path_url = ''/v1/things?x=1'',
      headers =
        cid_setitem (cid_setitem (cid_setitem Map.empty ''X-Foo'' ''v1'') ''X-Bar'' ''v2'')
          ''authorization'' ''stale'',
      body = ''payload''\<rparr>"

text \<open>
  The string to sign of that request at the first reading of the clock, the secret key
  \<^verbatim>\<open>s3cr3t\<close> filled to a block, the two padded inputs of the hash function in the
  HMAC of that string, and the two digests.
\<close>

definition example_message :: string where
  "example_message =
     ''GET\<newline>example.com\<newline>/v1/things?x=1\<newline>2024-01-01T00:00:00-00:00\<newline>''"

definition example_key_block :: string where
  "example_key_block = ''s3cr3t'' @ replicate 58 (char_of (0 :: nat))"

definition example_inner_digest :: string where
  "example_inner_digest = map char_of
    ([220, 186, 61, 2, 162, 249, 183, 181,
     185, 102, 101, 20, 83, 130, 140, 13,
     216, 215, 202, 125, 96, 252, 135, 175,
     130, 48, 236, 136, 206, 49, 144, 191] :: nat list)"

definition example_digest :: string where
  "example_digest = map char_of
    ([247, 5, 137, 233, 240, 249, 252, 136,
     63, 135, 13, 220, 87, 20, 10, 127,
     251, 78, 216, 90, 41, 111, 174, 195,
     30, 95, 195, 23, 244, 8, 63, 104] :: nat list)"

definition example_inner :: string where
  "example_inner = sha_pad (translate_xor 0x36 example_key_block @ example_message)"

definition example_outer :: string where
  "example_outer = sha_pad (translate_xor 0x5C example_key_block @ example_inner_digest)"

section \<open>Properties\<close>

subsection \<open>The two templates\<close>

lemma format_STRING_TO_SIGN:
  "format_str STRING_TO_SIGN
     [(''method'', m), (''host'', h), (''uri'', u), (''timestamp'', t)]
   = Inr (m @ ''\<newline>'' @ h @ ''\<newline>'' @ u @ ''\<newline>'' @ t @ ''\<newline>'')"
  by (simp add: format_str_def STRING_TO_SIGN_def)

lemma format_AUTH_HEADER:
  "format_str AUTH_HEADER [(''api_key'', k), (''sig'', s), (''timestamp'', t)]
   = Inr (''APIKey='' @ k @ '',Signature='' @ s @ '',Timestamp='' @ t)"
  by (simp add: format_str_def AUTH_HEADER_def)

subsection \<open>The selection of header values\<close>

lemma header_values_eq: "header_values hdrs hs = Inr (List.map_filter hdrs hs)"
  by (induction hs) (auto simp: contains_def getitem_def split: option.splits)

lemma selected_header_values_Some:
  "required_headers self = Some hs \<Longrightarrow> selected_header_values self hdrs = List.map_filter hdrs hs"
  by (cases hs) (simp_all add: selected_header_values_def)

lemma selected_header_values_None:
  "required_headers self = None \<Longrightarrow> selected_header_values self hdrs = []"
  by (simp add: selected_header_values_def)

lemma build_str_to_sign_eq:
  "build_str_to_sign self m h u t hdrs
   = Inr (m @ ''\<newline>'' @ h @ ''\<newline>'' @ u @ ''\<newline>'' @ t @ ''\<newline>''
          @ join ''\<newline>'' (selected_header_values self hdrs))"
proof (cases "required_headers self")
  case None
  then show ?thesis
    by (simp add: build_str_to_sign_def format_STRING_TO_SIGN selected_header_values_def)
next
  case (Some hs)
  then show ?thesis
    by (cases hs)
       (simp_all add: build_str_to_sign_def format_STRING_TO_SIGN selected_header_values_def
          header_values_eq)
qed

lemma HMACAuth_call_eq:
  "HMACAuth_call urlparse now self r
   = Inr (r\<lparr>headers := cid_setitem (headers r) ''Authorization''
       (''APIKey='' @ api_key self @ '',Signature=''
        @ b64encode (hmac_sha256 (secret_key self)
            (method' r @ ''\<newline>'' @ netloc (urlparse (url r)) @ ''\<newline>'' @ path_url r
             @ ''\<newline>'' @ make_timestamp now @ ''\<newline>''
             @ join ''\<newline>'' (selected_header_values self (cid_get (headers r)))))
        @ '',Timestamp='' @ make_timestamp now)\<rparr>)"
  by (simp add: HMACAuth_call_def Let_def build_str_to_sign_eq format_AUTH_HEADER
      encoded_sig_def)

subsection \<open>The headers of a request\<close>

text \<open>
  The membership test and the subscription of the comprehension, on the lookup of a
  \<^verbatim>\<open>CaseInsensitiveDict\<close>, are those of the dictionary (the \<^verbatim>\<open>KeyError\<close> of the
  dictionary names the lower-cased key).
\<close>

lemma contains_cid_get: "contains (cid_get d) key = cid_contains d key"
  by (simp add: contains_def cid_get_def cid_contains_def split: sum.split)

lemma getitem_cid_get:
  "cid_contains d key \<Longrightarrow> getitem (cid_get d) key = cid_getitem d key"
  by (simp add: getitem_def cid_get_def cid_contains_def split: sum.splits)

lemma cid_get_eq: "cid_get d key = map_option snd (d (lower key))"
  by (simp add: cid_get_def cid_getitem_def split: option.split)

lemma cid_get_setitem:
  "cid_get (cid_setitem d key v) n = (if lower n = lower key then Some v else cid_get d n)"
  by (simp add: cid_get_eq cid_setitem_def)

lemma lower_Authorization: "lower ''Authorization'' = ''authorization''"
  by (simp add: lower_def lower_char_def)

lemma authorization_of_call:
  "authorization_of (HMACAuth_call urlparse now self r)
   = Some (''APIKey='' @ api_key self @ '',Signature=''
        @ b64encode (hmac_sha256 (secret_key self)
            (method' r @ ''\<newline>'' @ netloc (urlparse (url r)) @ ''\<newline>'' @ path_url r
             @ ''\<newline>'' @ make_timestamp now @ ''\<newline>''
             @ join ''\<newline>'' (selected_header_values self (cid_get (headers r)))))
        @ '',Timestamp='' @ make_timestamp now)"
  by (simp add: HMACAuth_call_eq authorization_of_def cid_get_setitem)

subsection \<open>The digest and its encoding\<close>

lemma length_sha_round: "length (sha_round v kw) = length v"
  by (induction v kw rule: sha_round.induct) (simp_all add: Let_def)

lemma length_foldl_sha_round: "length (foldl sha_round v kws) = length v"
  by (induction kws arbitrary: v) (simp_all add: length_sha_round)

lemma length_compress: "length (compress hs block) = length hs"
  by (simp add: compress_def length_foldl_sha_round)

lemma length_foldl_compress: "length (foldl compress hs blocks) = length hs"
  by (induction blocks arbitrary: hs) (simp_all add: length_compress)

lemma length_concat_word_bytes: "length (concat (map word_bytes ws)) = 4 * length ws"
  by (induction ws) (simp_all add: word_bytes_def)

lemma length_sha256: "length (sha256 m) = 32"
  by (simp add: sha256_def length_concat_word_bytes length_foldl_compress initial_hash_def)

lemma length_hmac_sha256: "length (hmac_sha256 key msg) = 32"
  by (simp add: hmac_sha256_def Let_def length_sha256)

lemma of_char_less_256: "(of_char c :: nat) < 256"
proof -
  have "(of_char c :: nat) mod 256 < 256" by (rule mod_less_divisor) simp
  then show ?thesis by (simp only: of_char_mod_256)
qed

lemma b64_char_in_alphabet: "n < 64 \<Longrightarrow> b64_char n \<in> set b64_alphabet"
  unfolding b64_char_def by (rule nth_mem) (simp add: b64_alphabet_def)

lemma b64_index_bounds:
  fixes a b c :: nat
  assumes "a < 256" and "b < 256" and "c < 256"
  shows "a div 4 < 64" and "a mod 4 * 16 < 64" and "a mod 4 * 16 + b div 16 < 64"
    and "b mod 16 * 4 < 64" and "b mod 16 * 4 + c div 64 < 64" and "c mod 64 < 64"
proof -
  show "a div 4 < 64" using assms(1) by simp
  have a: "a mod 4 < 4" by simp
  have b: "b mod 16 < 16" by simp
  have b': "b div 16 < 16" using assms(2) by simp
  have c': "c div 64 < 4" using assms(3) by simp
  show "a mod 4 * 16 < 64" using a by linarith
  show "a mod 4 * 16 + b div 16 < 64" using a b' by linarith
  show "b mod 16 * 4 < 64" using b by linarith
  show "b mod 16 * 4 + c div 64 < 64" using b c' by linarith
  show "c mod 64 < 64" by simp
qed

lemma b64_char_of_char:
  "b64_char (of_char x div 4) \<in> set b64_alphabet"
  "b64_char (of_char x mod 4 * 16) \<in> set b64_alphabet"
  "b64_char (of_char x mod 4 * 16 + of_char y div 16) \<in> set b64_alphabet"
  "b64_char (of_char y mod 16 * 4) \<in> set b64_alphabet"
  "b64_char (of_char y mod 16 * 4 + of_char z div 64) \<in> set b64_alphabet"
  "b64_char (of_char z mod 64) \<in> set b64_alphabet"
  using b64_index_bounds [OF of_char_less_256 [of x] of_char_less_256 [of y]
      of_char_less_256 [of z]]
  by (simp_all only: b64_char_in_alphabet)

lemma set_b64encode: "set (b64encode bs) \<subseteq> set b64_alphabet \<union> {CHR ''=''}"
proof (induction bs rule: b64encode.induct)
  case 1
  show ?case by simp
next
  case (2 x)
  show ?case by (simp add: Let_def b64_char_of_char)
next
  case (3 x y)
  show ?case by (simp add: Let_def b64_char_of_char)
next
  case (4 x y z rest)
  then have "set (b64encode rest) \<subseteq> set b64_alphabet \<union> {CHR ''=''}"
    by simp
  then show ?case by (simp add: Let_def b64_char_of_char)
qed

lemma length_b64encode: "length (b64encode bs) = 4 * ((length bs + 2) div 3)"
proof (induction bs rule: b64encode.induct)
  case (4 x y z rest)
  then have "length (b64encode rest) = 4 * ((length rest + 2) div 3)"
    by simp
  moreover have "(5 + length rest) div 3 = Suc ((length rest + 2) div 3)"
    by arith
  ultimately show ?case by (simp add: Let_def)
qed (simp_all add: Let_def)

lemma newline_notin_alphabet: "CHR 0x0A \<notin> set b64_alphabet \<union> {CHR ''=''}"
  by (simp add: b64_alphabet_def)

lemma b64encode_no_newline: "\<not> has_newline (b64encode bs)"
  using set_b64encode [of bs] newline_notin_alphabet unfolding has_newline_def by blast

subsection \<open>A known answer\<close>

text \<open>
  The signature of the example request, computed inside the logic, one block of the hash
  function at a time. The rules below evaluate the operations on words of 32 bits on
  numerals. The digest and its encoding are those that \<^verbatim>\<open>hmac\<close>, \<^verbatim>\<open>hashlib\<close>
  and \<^verbatim>\<open>base64\<close> of CPython give for this key and message.
\<close>

lemma norm32: "take_bit 32 (x :: 32 word) = x"
  using take_bit_length_eq [of x] by simp

lemma word_rotr_32:
  fixes w :: "32 word"
  assumes "n < 32"
  shows "word_rotr n w = drop_bit n w + push_bit (32 - n) (take_bit n w)"
proof -
  have "word_rotr n w = drop_bit n w OR push_bit (32 - n) (take_bit n w)"
  proof (rule bit_word_eqI)
    fix m
    assume "m < LENGTH(32)"
    then have m: "m < 32" by simp
    show "bit (word_rotr n w) m
      \<longleftrightarrow> bit (drop_bit n w OR push_bit (32 - n) (take_bit n w)) m"
    proof (cases "m + n < 32")
      case True
      then have "(m + n) mod 32 = m + n" by simp
      with True m assms show ?thesis by (auto simp: bit_simps ac_simps)
    next
      case False
      then have "(m + n) mod 32 = m + n - 32"
        using m assms by (simp add: mod_if)
      moreover have "\<not> bit w (n + m)"
        using False bit_imp_le_length [of w "n + m"] by (auto simp: ac_simps)
      ultimately show ?thesis
        using m assms False by (auto simp: bit_simps ac_simps)
    qed
  qed
  also have "\<dots> = drop_bit n w + push_bit (32 - n) (take_bit n w)"
  proof (rule disjunctive_add [symmetric])
    fix m
    show "\<not> bit (drop_bit n w) m \<or> \<not> bit (push_bit (32 - n) (take_bit n w)) m"
      using assms bit_imp_le_length [of w "n + m"] by (auto simp: bit_simps)
  qed
  finally show ?thesis .
qed

lemma sha_round_eval:
  "sha_round [a, b, c, d, e, f, g, h] (k, w) =
     (let t1 = take_bit 32 (h + big_sigma1 e + ch e f g + k + w);
          t2 = take_bit 32 (big_sigma0 a + maj a b c)
      in [take_bit 32 (t1 + t2), a, b, c, take_bit 32 (d + t1), e, f, g])"
  by (simp only: sha_round.simps norm32)

lemma extend_schedule_numeral:
  "extend_schedule (numeral n) w =
     extend_schedule (pred_numeral n)
        (w @ [take_bit 32 (small_sigma1 (w ! (length w - 2)) + w ! (length w - 7)
              + small_sigma0 (w ! (length w - 15)) + w ! (length w - 16))])"
proof -
  have "extend_schedule (numeral n) w = extend_schedule (Suc (pred_numeral n)) w"
    by (simp only: numeral_eq_Suc)
  then show ?thesis
    by (simp only: extend_schedule.simps Let_def norm32)
qed

lemma replicate_numeral_eval:
  "replicate (numeral k) x = x # replicate (pred_numeral k) x"
  by (simp only: numeral_eq_Suc replicate.simps)

lemma be_bytes_numeral:
  "be_bytes (numeral k) n = be_bytes (pred_numeral k) (n div 256) @ [char_of n]"
proof -
  have "be_bytes (numeral k) n = be_bytes (Suc (pred_numeral k)) n"
    by (simp only: numeral_eq_Suc)
  then show ?thesis
    by (simp only: be_bytes.simps)
qed

lemmas sha_eval =
  sha256_def sha_pad_def length_bytes_def be_bytes_numeral compress_def schedule_def
  extend_schedule_numeral sha_round_eval word_rotr_32 initial_hash_def round_constants_def
  word_bytes_def be_word_def big_sigma0_def big_sigma1_def small_sigma0_def small_sigma1_def
  ch_def maj_def Let_def replicate_numeral_eval

lemmas example_eval =
  example_inner_def example_outer_def example_key_block_def example_message_def
  example_inner_digest_def translate_xor_def

lemma inner_block_1:
  "compress initial_hash (take 64 example_inner)
   = [3111598974, 3976842588, 1019883392, 174413470, 3590892622, 3838042546,
     1437600749, 3879213132]"
  by (simp add: example_eval sha_eval del: sha_round.simps)

lemma inner_block_2:
  "compress
     [3111598974, 3976842588, 1019883392, 174413470, 3590892622, 3838042546,
     1437600749, 3879213132]
     (take 64 (drop 64 example_inner))
   = [2188208506, 3869276453, 13967172, 4097269328, 3655665447, 1562190513,
     3935034434, 2096942996]"
  by (simp add: example_eval sha_eval del: sha_round.simps)

lemma inner_block_3:
  "compress
     [2188208506, 3869276453, 13967172, 4097269328, 3655665447, 1562190513,
     3935034434, 2096942996]
     (drop 128 example_inner)
   = [3703192834, 2734274485, 3110495508, 1401064461, 3638020733, 1627162543,
     2184244360, 3459354815]"
  by (simp add: example_eval sha_eval del: sha_round.simps)

lemma outer_block_1:
  "compress initial_hash (take 64 example_outer)
   = [474802667, 141276547, 4268463918, 3672333871, 619219900, 2435688101,
     284456330, 3074579727]"
  by (simp add: example_eval sha_eval del: sha_round.simps)

lemma outer_block_2:
  "compress
     [474802667, 141276547, 4268463918, 3672333871, 619219900, 2435688101,
     284456330, 3074579727]
     (drop 64 example_outer)
   = [4144335337, 4042914952, 1065815516, 1460931199, 4216248410, 695185091,
     509592343, 4094181224]"
  by (simp add: example_eval sha_eval del: sha_round.simps)

lemma chunks_example_inner:
  "chunks 64 example_inner
   = [take 64 example_inner, take 64 (drop 64 example_inner), drop 128 example_inner]"
  by (simp add: example_eval sha_eval)

lemma chunks_example_outer:
  "chunks 64 example_outer = [take 64 example_outer, drop 64 example_outer]"
  by (simp add: example_eval sha_eval)

lemma sha256_example_inner:
  "sha256 (translate_xor 0x36 example_key_block @ example_message) = example_inner_digest"
  unfolding sha256_def example_inner_def [symmetric] chunks_example_inner
  by (simp add: inner_block_1 inner_block_2 inner_block_3 word_bytes_def
      example_inner_digest_def)

lemma sha256_example_outer:
  "sha256 (translate_xor 0x5C example_key_block @ example_inner_digest) = example_digest"
  unfolding sha256_def example_outer_def [symmetric] chunks_example_outer
  by (simp add: outer_block_1 outer_block_2 word_bytes_def example_digest_def)

lemma hmac_sha256_short_key:
  assumes "length key \<le> 64"
  shows "hmac_sha256 key msg
    = sha256 (translate_xor 0x5C (key @ replicate (64 - length key) (char_of (0 :: nat)))
              @ sha256 (translate_xor 0x36 (key @ replicate (64 - length key) (char_of (0 :: nat)))
                        @ msg))"
  using assms by (simp add: hmac_sha256_def Let_def)

lemma hmac_sha256_example:
  "hmac_sha256 ''s3cr3t'' example_message = example_digest"
proof -
  have "hmac_sha256 ''s3cr3t'' example_message
    = sha256 (translate_xor 0x5C example_key_block
              @ sha256 (translate_xor 0x36 example_key_block @ example_message))"
    by (simp add: hmac_sha256_short_key example_key_block_def)
  also have "\<dots> = sha256 (translate_xor 0x5C example_key_block @ example_inner_digest)"
    by (simp only: sha256_example_inner)
  also have "\<dots> = example_digest"
    by (rule sha256_example_outer)
  finally show ?thesis .
qed

lemma b64encode_example_digest:
  "b64encode example_digest = ''9wWJ6fD5/Ig/hw3cVxQKf/tO2Fopb67DHl/DF/QIP2g=''"
  by (simp add: example_digest_def b64_char_def b64_alphabet_def)

subsection \<open>The stored allow-list\<close>

lemma map_filter_filter_contains:
  "List.map_filter hdrs (filter (contains hdrs) xs) = List.map_filter hdrs xs"
  by (induction xs) (auto simp: contains_def map_filter_simps split: option.splits)

lemma map_filter_sort_present:
  "List.map_filter hdrs (sort (filter (contains hdrs) hs)) = List.map_filter hdrs (sort hs)"
proof -
  have "sort (filter (contains hdrs) hs) = filter (contains hdrs) (sort hs)"
    by (simp add: filter_sort)
  then show ?thesis
    by (simp only: map_filter_filter_contains)
qed

lemma selected_header_values_init:
  "selected_header_values (HMACAuth_init k sk (Some hs)) hdrs = List.map_filter hdrs (sort hs)"
  by (rule selected_header_values_Some) (simp add: HMACAuth_init_def)

lemma selected_header_values_init_None:
  "selected_header_values (HMACAuth_init k sk None) hdrs = []"
  by (rule selected_header_values_None) (simp add: HMACAuth_init_def)

lemma sort_cong_mset:
  fixes xs ys :: "string list"
  assumes "mset xs = mset ys"
  shows "sort xs = sort ys"
  by (rule properties_for_sort) (simp_all add: assms)

subsection \<open>The example inputs, evaluated\<close>

lemma make_timestamp_example_now: "make_timestamp example_now = ''2024-01-01T00:00:00-00:00''"
  by (simp add: make_timestamp_def isoformat_def isoformat_seconds_def digits4_def
      digits2_def digit_def example_now_def)

lemma make_timestamp_example_later:
  "make_timestamp example_later = ''2024-11-30T23:59:07.001234-00:00''"
  by (simp add: make_timestamp_def isoformat_def isoformat_seconds_def digits6_def
      digits4_def digits2_def digit_def example_later_def)

subsection \<open>Characters of the timestamp, absent names\<close>

lemma has_newline_append [simp]: "has_newline (xs @ ys) \<longleftrightarrow> has_newline xs \<or> has_newline ys"
  by (auto simp: has_newline_def)

lemma has_newline_Cons [simp]: "has_newline (c # cs) \<longleftrightarrow> c = CHR 0x0A \<or> has_newline cs"
  by (auto simp: has_newline_def)

lemma has_newline_Nil [simp]: "\<not> has_newline []"
  by (simp add: has_newline_def)

lemma digit_in_digits: "digit n \<in> set ''0123456789''"
  unfolding digit_def by (rule nth_mem) simp

lemma digit_not_newline [simp]: "digit n \<noteq> CHR 0x0A"
  using digit_in_digits [of n] by auto

lemma digits_no_newline [simp]:
  "\<not> has_newline (digits2 n)" "\<not> has_newline (digits4 n)" "\<not> has_newline (digits6 n)"
  by (simp_all add: digits2_def digits4_def digits6_def)

lemma make_timestamp_no_newline: "\<not> has_newline (make_timestamp now)"
  by (simp add: make_timestamp_def isoformat_def isoformat_seconds_def)

lemma length_digits [simp]:
  "length (digits2 n) = 2" "length (digits4 n) = 4" "length (digits6 n) = 6"
  by (simp_all add: digits2_def digits4_def digits6_def)

lemma map_filter_absent: "\<forall>n \<in> set xs. f n = None \<Longrightarrow> List.map_filter f xs = []"
  by (induction xs) (simp_all add: map_filter_simps)

section \<open>The claims\<close>

text \<open>
  C1. For every method, host, path with query, timestamp and selection of headers, the
  string to sign is the method, the host, the path with query and the timestamp, each
  followed by one newline, and then, when the allow-list is not empty, the values of
  the allow-listed headers that the request has, joined with newlines, with no newline
  after the last. For \<^verbatim>\<open>GET\<close>, \<^verbatim>\<open>example.com\<close>, \<^verbatim>\<open>/v1/things?x=1\<close>, the
  timestamp \<^verbatim>\<open>2024-01-01T00:00:00.000000-00:00\<close> and no headers it is those four
  lines.
\<close>

theorem string_to_sign_format:
  "build_str_to_sign self m h u t hdrs
   = Inr (m @ ''\<newline>'' @ h @ ''\<newline>'' @ u @ ''\<newline>'' @ t @ ''\<newline>''
          @ (case required_headers self of
               Some (x # xs) \<Rightarrow> join ''\<newline>'' (List.map_filter hdrs (x # xs))
             | _ \<Rightarrow> []))
   \<and> build_str_to_sign (HMACAuth_init k sk None) ''GET'' ''example.com'' ''/v1/things?x=1''
         ''2024-01-01T00:00:00.000000-00:00'' Map.empty
     = Inr ''GET\<newline>example.com\<newline>/v1/things?x=1\<newline>2024-01-01T00:00:00.000000-00:00\<newline>''"
proof
  show "build_str_to_sign self m h u t hdrs
   = Inr (m @ ''\<newline>'' @ h @ ''\<newline>'' @ u @ ''\<newline>'' @ t @ ''\<newline>''
          @ (case required_headers self of
               Some (x # xs) \<Rightarrow> join ''\<newline>'' (List.map_filter hdrs (x # xs))
             | _ \<Rightarrow> []))"
    unfolding build_str_to_sign_eq selected_header_values_def
    by (simp split: option.split list.split)
  show "build_str_to_sign (HMACAuth_init k sk None) ''GET'' ''example.com'' ''/v1/things?x=1''
         ''2024-01-01T00:00:00.000000-00:00'' Map.empty
     = Inr ''GET\<newline>example.com\<newline>/v1/things?x=1\<newline>2024-01-01T00:00:00.000000-00:00\<newline>''"
    by (simp add: build_str_to_sign_eq selected_header_values_init_None)
qed

theorem string_to_sign_format_witness:
  "build_str_to_sign (HMACAuth_init ''k1'' ''s3cr3t'' (Some [''X-Foo'', ''X-Absent'', ''X-Bar'']))
      ''POST'' ''example.com:8080'' ''/v1/things'' ''2024-11-30T23:59:07.001234-00:00''
      [''X-Foo'' \<mapsto> ''v1'', ''X-Bar'' \<mapsto> ''v2'']
   = Inr ''POST\<newline>example.com:8080\<newline>/v1/things\<newline>2024-11-30T23:59:07.001234-00:00\<newline>v2\<newline>v1''"
  using string_to_sign_format
    [of "HMACAuth_init ''k1'' ''s3cr3t'' (Some [''X-Foo'', ''X-Absent'', ''X-Bar''])"
        "''POST''" "''example.com:8080''" "''/v1/things''"
        "''2024-11-30T23:59:07.001234-00:00''" "[''X-Foo'' \<mapsto> ''v1'', ''X-Bar'' \<mapsto> ''v2'']"]
  by (simp add: HMACAuth_init_def map_filter_simps)

text \<open>
  C2. The \<^verbatim>\<open>Authorization\<close> value of every call is \<^verbatim>\<open>APIKey=\<close>, the API key,
  \<^verbatim>\<open>,Signature=\<close>, the padded base64 encoding (44 characters) of the 32 bytes of
  HMAC-SHA256 with the secret key over the string to sign, \<^verbatim>\<open>,Timestamp=\<close> and the
  timestamp that is in the string to sign; nothing is added or escaped. The strings of
  this module are byte strings, so the message is the string to sign itself. The value
  is read from the returned request as \<^verbatim>\<open>r.headers.get('Authorization')\<close>.
\<close>

theorem authorization_header_format:
  "\<exists>sts. build_str_to_sign self (method' r) (netloc (urlparse (url r))) (path_url r)
            (make_timestamp now) (cid_get (headers r)) = Inr sts
     \<and> length (hmac_sha256 (secret_key self) sts) = 32
     \<and> length (b64encode (hmac_sha256 (secret_key self) sts)) = 44
     \<and> authorization_of (HMACAuth_call urlparse now self r)
         = Some (''APIKey='' @ api_key self
                 @ '',Signature='' @ b64encode (hmac_sha256 (secret_key self) sts)
                 @ '',Timestamp='' @ make_timestamp now)"
  by (simp add: build_str_to_sign_eq authorization_of_call length_hmac_sha256
      length_b64encode)

theorem authorization_header_format_witness:
  "authorization_of
     (HMACAuth_call example_urlparse example_now (HMACAuth_init ''k1'' ''s3cr3t'' None)
        example_request)
   = Some ''APIKey=k1,Signature=9wWJ6fD5/Ig/hw3cVxQKf/tO2Fopb67DHl/DF/QIP2g=,Timestamp=2024-01-01T00:00:00-00:00''"
proof -
  let ?self = "HMACAuth_init ''k1'' ''s3cr3t'' None"
  obtain sts where
    sts: "build_str_to_sign ?self (method' example_request)
            (netloc (example_urlparse (url example_request))) (path_url example_request)
            (make_timestamp example_now) (cid_get (headers example_request)) = Inr sts"
    and auth: "authorization_of (HMACAuth_call example_urlparse example_now ?self example_request)
         = Some (''APIKey='' @ api_key ?self
                 @ '',Signature='' @ b64encode (hmac_sha256 (secret_key ?self) sts)
                 @ '',Timestamp='' @ make_timestamp example_now)"
    using authorization_header_format [of ?self example_request example_urlparse example_now]
    by blast
  from sts have "sts = example_message"
    by (simp add: build_str_to_sign_eq selected_header_values_init_None
        make_timestamp_example_now example_request_def example_urlparse_def
        example_message_def)
  moreover have "api_key ?self = ''k1''" and "secret_key ?self = ''s3cr3t''"
    by (simp_all add: HMACAuth_init_def)
  ultimately show ?thesis
    using auth
    by (simp add: make_timestamp_example_now hmac_sha256_example b64encode_example_digest)
qed

text \<open>
  C3. An allow-listed name that the request does not have raises nothing and is left out:
  signing never fails, and the string to sign is the one of a signer whose allow-list
  holds only the names that the request has, with the values in the order of the
  sorted names. (It holds for every allow-list, the empty one included.)
\<close>

theorem absent_headers_are_skipped:
  "\<exists>s. build_str_to_sign (HMACAuth_init k sk (Some hs)) m h u t hdrs = Inr s
     \<and> build_str_to_sign (HMACAuth_init k sk (Some (filter (contains hdrs) hs))) m h u t hdrs
         = Inr s
     \<and> s = m @ ''\<newline>'' @ h @ ''\<newline>'' @ u @ ''\<newline>'' @ t @ ''\<newline>''
            @ join ''\<newline>'' (List.map_filter hdrs (sort hs))
     \<and> (\<exists>r'. HMACAuth_call urlparse now (HMACAuth_init k sk (Some hs)) r = Inr r')"
  by (simp add: build_str_to_sign_eq selected_header_values_init map_filter_sort_present
      HMACAuth_call_eq)

theorem absent_headers_are_skipped_witness:
  "build_str_to_sign (HMACAuth_init ''k1'' ''s3cr3t'' (Some [''X-Foo'', ''X-Absent'', ''X-Bar'']))
      ''GET'' ''example.com'' ''/'' ''t'' [''X-Foo'' \<mapsto> ''v1'', ''X-Bar'' \<mapsto> ''v2'']
   = Inr ''GET\<newline>example.com\<newline>/\<newline>t\<newline>v2\<newline>v1''
   \<and> build_str_to_sign (HMACAuth_init ''k1'' ''s3cr3t'' (Some [''X-Foo'', ''X-Bar'']))
      ''GET'' ''example.com'' ''/'' ''t'' [''X-Foo'' \<mapsto> ''v1'', ''X-Bar'' \<mapsto> ''v2'']
   = Inr ''GET\<newline>example.com\<newline>/\<newline>t\<newline>v2\<newline>v1''"
  using absent_headers_are_skipped
    [of "''k1''" "''s3cr3t''" "[''X-Foo'', ''X-Absent'', ''X-Bar'']" "''GET''" "''example.com''"
        "''/''" "''t''" "[''X-Foo'' \<mapsto> ''v1'', ''X-Bar'' \<mapsto> ''v2'']"]
  by (auto simp: contains_def map_filter_simps)

text \<open>
  C4. Two signers built with the same keys and with allow-lists that are permutations of
  each other are the same signer: on the same request and timestamp they give the same
  string to sign, the same signature and the same returned request, since the names are
  sorted when the signer is built. With the allow-list \<^verbatim>\<open>["X-Foo","X-Bar"]\<close> and the
  headers \<^verbatim>\<open>{"X-Foo":"v1","X-Bar":"v2"}\<close> the segment after the four lines is
  \<^verbatim>\<open>v2\<close>, a newline, \<^verbatim>\<open>v1\<close>.
\<close>

theorem allow_list_order_is_irrelevant:
  assumes "mset hs1 = mset hs2"
  shows "HMACAuth_init k sk (Some hs1) = HMACAuth_init k sk (Some hs2)
    \<and> build_str_to_sign (HMACAuth_init k sk (Some hs1)) m h u t hdrs
        = build_str_to_sign (HMACAuth_init k sk (Some hs2)) m h u t hdrs
    \<and> (\<exists>s. build_str_to_sign (HMACAuth_init k sk (Some hs1)) m h u t hdrs = Inr s
          \<and> encoded_sig (HMACAuth_init k sk (Some hs1)) s
              = encoded_sig (HMACAuth_init k sk (Some hs2)) s)
    \<and> HMACAuth_call urlparse now (HMACAuth_init k sk (Some hs1)) r
        = HMACAuth_call urlparse now (HMACAuth_init k sk (Some hs2)) r
    \<and> build_str_to_sign (HMACAuth_init k sk (Some [''X-Foo'', ''X-Bar''])) m h u t
          [''X-Foo'' \<mapsto> ''v1'', ''X-Bar'' \<mapsto> ''v2'']
        = Inr (m @ ''\<newline>'' @ h @ ''\<newline>'' @ u @ ''\<newline>'' @ t @ ''\<newline>'' @ ''v2\<newline>v1'')"
proof -
  have same: "HMACAuth_init k sk (Some hs1) = HMACAuth_init k sk (Some hs2)"
    using sort_cong_mset [OF assms] by (simp add: HMACAuth_init_def)
  have "build_str_to_sign (HMACAuth_init k sk (Some [''X-Foo'', ''X-Bar''])) m h u t
          [''X-Foo'' \<mapsto> ''v1'', ''X-Bar'' \<mapsto> ''v2'']
        = Inr (m @ ''\<newline>'' @ h @ ''\<newline>'' @ u @ ''\<newline>'' @ t @ ''\<newline>'' @ ''v2\<newline>v1'')"
    by (simp add: build_str_to_sign_eq selected_header_values_init map_filter_simps)
  with same show ?thesis
    by (simp add: build_str_to_sign_eq)
qed

theorem allow_list_order_is_irrelevant_witness:
  "mset [''B'', ''A''] = mset [''A'', ''B'']
   \<and> HMACAuth_init ''k1'' ''s3cr3t'' (Some [''B'', ''A''])
       = HMACAuth_init ''k1'' ''s3cr3t'' (Some [''A'', ''B''])
   \<and> HMACAuth_call example_urlparse example_now
         (HMACAuth_init ''k1'' ''s3cr3t'' (Some [''B'', ''A''])) example_request
       = HMACAuth_call example_urlparse example_now
         (HMACAuth_init ''k1'' ''s3cr3t'' (Some [''A'', ''B''])) example_request"
proof -
  have perm: "mset [''B'', ''A''] = mset [''A'', ''B'']"
    by (simp add: add.commute)
  from allow_list_order_is_irrelevant [OF perm, of "''k1''" "''s3cr3t''" _ _ _ _ _
      example_urlparse example_now example_request] perm
  show ?thesis by blast
qed

text \<open>
  C5, as amended. The timestamp of a call is the reading of the UTC clock as
  \<^verbatim>\<open>isoformat()\<close> renders it, followed by the literal \<^verbatim>\<open>-00:00\<close>: with the six
  digits of the microsecond when the microsecond is not 0, and with no fraction of a
  second when it is 0. (As claimed, the timestamp always has microsecond precision;
  on a full second it has not.)
\<close>

theorem timestamp_format:
  "make_timestamp now
   = digits4 (year now) @ ''-'' @ digits2 (month now) @ ''-'' @ digits2 (day now) @ ''T''
     @ digits2 (hour now) @ '':'' @ digits2 (minute now) @ '':'' @ digits2 (second now)
     @ (if microsecond now = 0 then [] else ''.'' @ digits6 (microsecond now))
     @ ''-00:00''
   \<and> (microsecond now \<noteq> 0 \<longrightarrow> make_timestamp now = spec_timestamp now)
   \<and> length (make_timestamp now) = (if microsecond now = 0 then 25 else 32)"
  by (simp add: make_timestamp_def isoformat_def isoformat_seconds_def spec_timestamp_def)

theorem timestamp_format_witness:
  "microsecond example_later \<noteq> 0
   \<and> make_timestamp example_later = ''2024-11-30T23:59:07.001234-00:00''
   \<and> spec_timestamp example_later = ''2024-11-30T23:59:07.001234-00:00''"
proof -
  have nz: "microsecond example_later \<noteq> 0"
    by (simp add: example_later_def)
  with timestamp_format [of example_later]
  have "make_timestamp example_later = spec_timestamp example_later"
    by blast
  with nz show ?thesis
    by (simp add: make_timestamp_example_later)
qed

theorem timestamp_precision_counterexample:
  "make_timestamp
     \<lparr>year = 2024, month = 1, day = 1, hour = 0, minute = 0, second = 0, microsecond = 0\<rparr>
   = ''2024-01-01T00:00:00-00:00''
   \<and> spec_timestamp
     \<lparr>year = 2024, month = 1, day = 1, hour = 0, minute = 0, second = 0, microsecond = 0\<rparr>
   = ''2024-01-01T00:00:00.000000-00:00''
   \<and> make_timestamp
     \<lparr>year = 2024, month = 1, day = 1, hour = 0, minute = 0, second = 0, microsecond = 0\<rparr>
   \<noteq> spec_timestamp
     \<lparr>year = 2024, month = 1, day = 1, hour = 0, minute = 0, second = 0, microsecond = 0\<rparr>"
  by (simp add: make_timestamp_def isoformat_def isoformat_seconds_def spec_timestamp_def
      digits6_def digits4_def digits2_def digit_def)

text \<open>
  C6. With an empty or absent allow-list there is no hidden state: the string to sign
  is a function of the method, the host, the path with query and the timestamp alone,
  and the signature of these and the secret key. Two runs whose inputs agree on them
  (the clock reading is an input) give the same string to sign, the same signature and
  the same \<^verbatim>\<open>Authorization\<close> value, whatever else the requests hold.
\<close>

theorem signing_is_deterministic:
  assumes "required_headers s1 = None \<or> required_headers s1 = Some []"
    and "required_headers s2 = None \<or> required_headers s2 = Some []"
    and "api_key s1 = api_key s2" and "secret_key s1 = secret_key s2"
    and "method' r1 = method' r2"
    and "netloc (urlparse (url r1)) = netloc (urlparse (url r2))"
    and "path_url r1 = path_url r2"
  shows "\<exists>s. s = method' r1 @ ''\<newline>'' @ netloc (urlparse (url r1)) @ ''\<newline>'' @ path_url r1
                  @ ''\<newline>'' @ make_timestamp now @ ''\<newline>''
          \<and> build_str_to_sign s1 (method' r1) (netloc (urlparse (url r1))) (path_url r1)
                (make_timestamp now) (cid_get (headers r1)) = Inr s
          \<and> build_str_to_sign s2 (method' r2) (netloc (urlparse (url r2))) (path_url r2)
                (make_timestamp now) (cid_get (headers r2)) = Inr s
          \<and> encoded_sig s1 s = encoded_sig s2 s
          \<and> authorization_of (HMACAuth_call urlparse now s1 r1)
              = authorization_of (HMACAuth_call urlparse now s2 r2)
          \<and> authorization_of (HMACAuth_call urlparse now s1 r1) \<noteq> None"
proof -
  have "selected_header_values s1 (cid_get (headers r1)) = []"
    and "selected_header_values s2 (cid_get (headers r2)) = []"
    using assms(1,2) by (auto simp: selected_header_values_def)
  with assms(3-7) show ?thesis
    by (simp add: build_str_to_sign_eq authorization_of_call encoded_sig_def)
qed

theorem signing_is_deterministic_witness:
  "authorization_of
     (HMACAuth_call example_urlparse example_now (HMACAuth_init ''k1'' ''s3cr3t'' None)
        example_request)
   = authorization_of
     (HMACAuth_call example_urlparse example_now (HMACAuth_init ''k1'' ''s3cr3t'' (Some []))
        (example_request\<lparr>headers := Map.empty, body := []\<rparr>))"
proof -
  let ?s1 = "HMACAuth_init ''k1'' ''s3cr3t'' None"
  let ?s2 = "HMACAuth_init ''k1'' ''s3cr3t'' (Some [])"
  let ?r2 = "example_request\<lparr>headers := Map.empty, body := []\<rparr>"
  have "required_headers ?s1 = None \<or> required_headers ?s1 = Some []"
    and "required_headers ?s2 = None \<or> required_headers ?s2 = Some []"
    and "api_key ?s1 = api_key ?s2" and "secret_key ?s1 = secret_key ?s2"
    and "method' example_request = method' ?r2"
    and "netloc (example_urlparse (url example_request)) = netloc (example_urlparse (url ?r2))"
    and "path_url example_request = path_url ?r2"
    by (simp_all add: HMACAuth_init_def example_urlparse_def)
  from signing_is_deterministic [OF this, of example_now] show ?thesis
    by blast
qed

text \<open>
  C7. Two signing contexts with the same selected header values that agree on three of
  method, host, path with query and timestamp, and differ in the fourth, have different
  strings to sign.
\<close>

theorem single_field_change_changes_string:
  assumes "(m1 \<noteq> m2 \<and> h1 = h2 \<and> u1 = u2 \<and> t1 = t2)
         \<or> (m1 = m2 \<and> h1 \<noteq> h2 \<and> u1 = u2 \<and> t1 = t2)
         \<or> (m1 = m2 \<and> h1 = h2 \<and> u1 \<noteq> u2 \<and> t1 = t2)
         \<or> (m1 = m2 \<and> h1 = h2 \<and> u1 = u2 \<and> t1 \<noteq> t2)"
    and "selected_header_values self1 hdrs1 = selected_header_values self2 hdrs2"
  shows "build_str_to_sign self1 m1 h1 u1 t1 hdrs1 \<noteq> build_str_to_sign self2 m2 h2 u2 t2 hdrs2"
  using assms by (auto simp: build_str_to_sign_eq)

theorem single_field_change_changes_string_witness:
  "build_str_to_sign (HMACAuth_init ''k1'' ''s3cr3t'' None) ''GET'' ''example.com'' ''/a'' ''t''
      Map.empty
   \<noteq> build_str_to_sign (HMACAuth_init ''k1'' ''s3cr3t'' None) ''GET'' ''example.com'' ''/b'' ''t''
      Map.empty"
  by (rule single_field_change_changes_string) simp_all

text \<open>
  C8. A call sets the \<^verbatim>\<open>Authorization\<close> header of the request to the computed value,
  over any value it had, returns that request, and changes nothing else of it: the
  method, the URL, the body and every other header are as they were. The headers of a
  request name a header without regard to the case of its letters: the value that the
  call overwrites is the one stored under any spelling of \<^verbatim>\<open>Authorization\<close>, the
  new value is read under every spelling, and the other headers are those whose name
  in small letters is not \<^verbatim>\<open>authorization\<close>; their entries in the store, the name as
  written and the value, are unchanged.
\<close>

theorem only_authorization_is_written:
  "\<exists>r' s v. HMACAuth_call urlparse now self r = Inr r'
     \<and> build_str_to_sign self (method' r) (netloc (urlparse (url r))) (path_url r)
          (make_timestamp now) (cid_get (headers r)) = Inr s
     \<and> v = ''APIKey='' @ api_key self @ '',Signature='' @ encoded_sig self s
            @ '',Timestamp='' @ make_timestamp now
     \<and> r' = r\<lparr>headers := cid_setitem (headers r) ''Authorization'' v\<rparr>
     \<and> headers r' ''authorization'' = Some (''Authorization'', v)
     \<and> (\<forall>n. lower n = ''authorization'' \<longrightarrow> cid_get (headers r') n = Some v)
     \<and> (\<forall>key. key \<noteq> ''authorization'' \<longrightarrow> headers r' key = headers r key)
     \<and> (\<forall>n. lower n \<noteq> ''authorization'' \<longrightarrow> cid_get (headers r') n = cid_get (headers r) n)
     \<and> method' r' = method' r \<and> url r' = url r \<and> path_url r' = path_url r
     \<and> body r' = body r"
  by (simp add: HMACAuth_call_eq build_str_to_sign_eq encoded_sig_def cid_get_setitem
      lower_Authorization)
    (simp add: cid_setitem_def lower_Authorization)

theorem only_authorization_is_written_witness:
  "\<exists>r'. HMACAuth_call example_urlparse example_now (HMACAuth_init ''k1'' ''s3cr3t'' None)
          example_request = Inr r'
     \<and> cid_get (headers example_request) ''Authorization'' = Some ''stale''
     \<and> cid_get (headers r') ''Authorization''
         = Some ''APIKey=k1,Signature=9wWJ6fD5/Ig/hw3cVxQKf/tO2Fopb67DHl/DF/QIP2g=,Timestamp=2024-01-01T00:00:00-00:00''
     \<and> cid_get (headers r') ''authorization'' = cid_get (headers r') ''Authorization''
     \<and> headers r' ''authorization''
         = Some (''Authorization'',
             ''APIKey=k1,Signature=9wWJ6fD5/Ig/hw3cVxQKf/tO2Fopb67DHl/DF/QIP2g=,Timestamp=2024-01-01T00:00:00-00:00'')
     \<and> headers r' ''x-foo'' = Some (''X-Foo'', ''v1'')
     \<and> cid_get (headers r') ''X-Foo'' = Some ''v1'' \<and> cid_get (headers r') ''X-Bar'' = Some ''v2''
     \<and> method' r' = ''GET'' \<and> url r' = ''http://example.com/v1/things?x=1''
     \<and> body r' = ''payload''"
proof -
  let ?self = "HMACAuth_init ''k1'' ''s3cr3t'' None"
  let ?v = "''APIKey=k1,Signature=9wWJ6fD5/Ig/hw3cVxQKf/tO2Fopb67DHl/DF/QIP2g=,Timestamp=2024-01-01T00:00:00-00:00''"
  have low: "lower ''authorization'' = ''authorization''" "lower ''Authorization'' = ''authorization''"
    "lower ''X-Foo'' = ''x-foo''" "lower ''X-Bar'' = ''x-bar''"
    by (simp_all add: lower_def lower_char_def)
  obtain r' s v where
    call: "HMACAuth_call example_urlparse example_now ?self example_request = Inr r'"
    and s: "build_str_to_sign ?self (method' example_request)
          (netloc (example_urlparse (url example_request))) (path_url example_request)
          (make_timestamp example_now) (cid_get (headers example_request)) = Inr s"
    and v: "v = ''APIKey='' @ api_key ?self @ '',Signature='' @ encoded_sig ?self s
            @ '',Timestamp='' @ make_timestamp example_now"
    and stored: "headers r' ''authorization'' = Some (''Authorization'', v)"
    and new: "\<forall>n. lower n = ''authorization'' \<longrightarrow> cid_get (headers r') n = Some v"
    and entries: "\<forall>key. key \<noteq> ''authorization'' \<longrightarrow> headers r' key = headers example_request key"
    and others: "\<forall>n. lower n \<noteq> ''authorization''
        \<longrightarrow> cid_get (headers r') n = cid_get (headers example_request) n"
    and rest: "method' r' = method' example_request" "url r' = url example_request"
      "body r' = body example_request"
    using only_authorization_is_written [of example_urlparse example_now ?self example_request]
    by blast
  from s have "s = example_message"
    by (simp add: build_str_to_sign_eq selected_header_values_init_None
        make_timestamp_example_now example_request_def example_urlparse_def
        example_message_def)
  with v have v': "v = ?v"
    by (simp add: encoded_sig_def HMACAuth_init_def hmac_sha256_example
        b64encode_example_digest make_timestamp_example_now)
  have old: "cid_get (headers example_request) ''Authorization'' = Some ''stale''"
    and foo: "cid_get (headers example_request) ''X-Foo'' = Some ''v1''"
    and bar: "cid_get (headers example_request) ''X-Bar'' = Some ''v2''"
    and foo_entry: "headers example_request ''x-foo'' = Some (''X-Foo'', ''v1'')"
    by (simp_all add: example_request_def cid_get_eq cid_setitem_def low)
  from new low have "cid_get (headers r') ''Authorization'' = Some v"
    and "cid_get (headers r') ''authorization'' = Some v"
    by simp_all
  moreover from others low foo bar have "cid_get (headers r') ''X-Foo'' = Some ''v1''"
    and "cid_get (headers r') ''X-Bar'' = Some ''v2''"
    by simp_all
  moreover from entries foo_entry have "headers r' ''x-foo'' = Some (''X-Foo'', ''v1'')"
    by simp
  ultimately show ?thesis
    using call stored old rest v' by (simp add: example_request_def)
qed

text \<open>
  C9, as amended. When the API key has no newline, the \<^verbatim>\<open>Authorization\<close> value has
  none: the template, the base64 alphabet and the timestamp have none. (As claimed, it
  holds for every API key; the key is inserted as it is, newlines included.)
\<close>

theorem authorization_has_no_newline:
  assumes "\<not> has_newline (api_key self)"
  shows "\<exists>v. authorization_of (HMACAuth_call urlparse now self r) = Some v \<and> \<not> has_newline v"
  using assms
  by (simp add: authorization_of_call b64encode_no_newline make_timestamp_no_newline)

theorem authorization_has_no_newline_witness:
  "\<exists>v. authorization_of
         (HMACAuth_call example_urlparse example_now (HMACAuth_init ''k1'' ''s3cr3t'' None)
            example_request) = Some v
     \<and> \<not> has_newline v"
proof -
  have "\<not> has_newline (api_key (HMACAuth_init ''k1'' ''s3cr3t'' None))"
    by (simp add: HMACAuth_init_def)
  then show ?thesis
    by (rule authorization_has_no_newline)
qed

theorem api_key_newline_counterexample:
  "authorization_of
     (HMACAuth_call example_urlparse example_now
        (HMACAuth_init ''k\<newline>1'' ''s3cr3t'' None) example_request)
   = Some ''APIKey=k\<newline>1,Signature=9wWJ6fD5/Ig/hw3cVxQKf/tO2Fopb67DHl/DF/QIP2g=,Timestamp=2024-01-01T00:00:00-00:00''
   \<and> has_newline
       ''APIKey=k\<newline>1,Signature=9wWJ6fD5/Ig/hw3cVxQKf/tO2Fopb67DHl/DF/QIP2g=,Timestamp=2024-01-01T00:00:00-00:00''"
proof -
  have "method' example_request @ ''\<newline>'' @ netloc (example_urlparse (url example_request))
        @ ''\<newline>'' @ path_url example_request @ ''\<newline>'' @ make_timestamp example_now
        @ ''\<newline>'' = example_message"
    by (simp add: make_timestamp_example_now example_request_def example_urlparse_def
        example_message_def)
  then have "authorization_of
     (HMACAuth_call example_urlparse example_now
        (HMACAuth_init ''k\<newline>1'' ''s3cr3t'' None) example_request)
   = Some (''APIKey=k\<newline>1,Signature='' @ b64encode (hmac_sha256 ''s3cr3t'' example_message)
           @ '',Timestamp='' @ make_timestamp example_now)"
    by (simp add: authorization_of_call selected_header_values_def HMACAuth_init_def)
  then show ?thesis
    by (simp add: hmac_sha256_example b64encode_example_digest make_timestamp_example_now)
qed

text \<open>
  C10. When the allow-list is not empty and the request has none of its names, the
  join of no values adds the empty string: the string to sign is the four lines, and
  the call returns what the signer built without an allow-list returns on the same
  request and clock reading.
\<close>

theorem no_present_header_is_no_allow_list:
  assumes "hs \<noteq> []" and "\<forall>n \<in> set hs. cid_get (headers r) n = None"
  shows "build_str_to_sign (HMACAuth_init k sk (Some hs)) (method' r) h (path_url r) t
           (cid_get (headers r))
         = Inr (method' r @ ''\<newline>'' @ h @ ''\<newline>'' @ path_url r @ ''\<newline>'' @ t @ ''\<newline>'')
    \<and> HMACAuth_call urlparse now (HMACAuth_init k sk (Some hs)) r
        = HMACAuth_call urlparse now (HMACAuth_init k sk None) r
    \<and> authorization_of (HMACAuth_call urlparse now (HMACAuth_init k sk (Some hs)) r)
        = authorization_of (HMACAuth_call urlparse now (HMACAuth_init k sk None) r)
    \<and> authorization_of (HMACAuth_call urlparse now (HMACAuth_init k sk None) r) \<noteq> None"
proof -
  from assms(2) have "List.map_filter (cid_get (headers r)) (sort hs) = []"
    by (intro map_filter_absent) simp
  then have "selected_header_values (HMACAuth_init k sk (Some hs)) (cid_get (headers r)) = []"
    by (simp add: selected_header_values_init)
  moreover have "api_key (HMACAuth_init k sk (Some hs)) = api_key (HMACAuth_init k sk None)"
    and "secret_key (HMACAuth_init k sk (Some hs)) = secret_key (HMACAuth_init k sk None)"
    by (simp_all add: HMACAuth_init_def)
  ultimately have "HMACAuth_call urlparse now (HMACAuth_init k sk (Some hs)) r
        = HMACAuth_call urlparse now (HMACAuth_init k sk None) r"
    and "build_str_to_sign (HMACAuth_init k sk (Some hs)) (method' r) h (path_url r) t
           (cid_get (headers r))
         = Inr (method' r @ ''\<newline>'' @ h @ ''\<newline>'' @ path_url r @ ''\<newline>'' @ t @ ''\<newline>'')"
    by (simp_all add: build_str_to_sign_eq HMACAuth_call_eq selected_header_values_init_None)
  then show ?thesis
    by (simp add: authorization_of_call)
qed

theorem no_present_header_is_no_allow_list_witness:
  "HMACAuth_call example_urlparse example_now
      (HMACAuth_init ''k1'' ''s3cr3t'' (Some [''X-Other'', ''Date''])) example_request
   = HMACAuth_call example_urlparse example_now (HMACAuth_init ''k1'' ''s3cr3t'' None)
      example_request"
proof -
  have "[''X-Other'', ''Date''] \<noteq> []"
    and "\<forall>n \<in> set [''X-Other'', ''Date'']. cid_get (headers example_request) n = None"
    by (simp_all add: example_request_def cid_get_eq cid_setitem_def lower_def lower_char_def)
  from no_present_header_is_no_allow_list [OF this] show ?thesis
    by blast
qed

end
